theory Spec2Isabelle
  imports Complex_Main
begin

section \<open>JavaScript numbers\<close>

text \<open>
  A JavaScript number is an IEEE-754 double. The model keeps the three special values
  apart and idealises the finite ones as reals: finite arithmetic is exact (no rounding,
  no overflow to Infinity, no underflow to 0). The two zeros \<open>+0\<close> and \<open>-0\<close> are
  identified; they differ only in the sign of a quotient by zero, and every divisor of
  the code below (\<open>2.0 * a\<close> in \<open>raycast\<close>, \<open>lengthSqr\<close> in \<open>normalize\<close>) comes from a
  sum of squares accumulated from \<open>+0\<close>, so that a zero divisor is \<open>+0\<close>.
\<close>

datatype number = Fin real | PosInf | NegInf | NaN

fun js_neg :: "number \<Rightarrow> number" where
  "js_neg (Fin a) = Fin (- a)"
| "js_neg PosInf = NegInf"
| "js_neg NegInf = PosInf"
| "js_neg NaN = NaN"

fun js_add :: "number \<Rightarrow> number \<Rightarrow> number" where
  "js_add (Fin a) (Fin b) = Fin (a + b)"
| "js_add (Fin a) PosInf = PosInf"
| "js_add (Fin a) NegInf = NegInf"
| "js_add PosInf (Fin b) = PosInf"
| "js_add PosInf PosInf = PosInf"
| "js_add PosInf NegInf = NaN"
| "js_add NegInf (Fin b) = NegInf"
| "js_add NegInf PosInf = NaN"
| "js_add NegInf NegInf = NegInf"
| "js_add NaN _ = NaN"
| "js_add _ NaN = NaN"

definition js_sub :: "number \<Rightarrow> number \<Rightarrow> number" where
  "js_sub a b = js_add a (js_neg b)"

fun js_mul :: "number \<Rightarrow> number \<Rightarrow> number" where
  "js_mul (Fin a) (Fin b) = Fin (a * b)"
| "js_mul (Fin a) PosInf = (if a = 0 then NaN else if 0 < a then PosInf else NegInf)"
| "js_mul (Fin a) NegInf = (if a = 0 then NaN else if 0 < a then NegInf else PosInf)"
| "js_mul PosInf (Fin b) = (if b = 0 then NaN else if 0 < b then PosInf else NegInf)"
| "js_mul NegInf (Fin b) = (if b = 0 then NaN else if 0 < b then NegInf else PosInf)"
| "js_mul PosInf PosInf = PosInf"
| "js_mul PosInf NegInf = NegInf"
| "js_mul NegInf PosInf = NegInf"
| "js_mul NegInf NegInf = PosInf"
| "js_mul NaN _ = NaN"
| "js_mul _ NaN = NaN"

fun js_div :: "number \<Rightarrow> number \<Rightarrow> number" where
  "js_div (Fin a) (Fin b) =
     (if b = 0 then (if a = 0 then NaN else if 0 < a then PosInf else NegInf)
      else Fin (a / b))"
| "js_div (Fin a) PosInf = Fin 0"
| "js_div (Fin a) NegInf = Fin 0"
| "js_div PosInf (Fin b) = (if 0 \<le> b then PosInf else NegInf)"
| "js_div NegInf (Fin b) = (if 0 \<le> b then NegInf else PosInf)"
| "js_div PosInf PosInf = NaN"
| "js_div PosInf NegInf = NaN"
| "js_div NegInf PosInf = NaN"
| "js_div NegInf NegInf = NaN"
| "js_div NaN _ = NaN"
| "js_div _ NaN = NaN"

text \<open>\<open>Math.sqrt\<close>: NaN on a negative argument.\<close>

fun Math_sqrt :: "number \<Rightarrow> number" where
  "Math_sqrt (Fin a) = (if a < 0 then NaN else Fin (sqrt a))"
| "Math_sqrt PosInf = PosInf"
| "Math_sqrt NegInf = NaN"
| "Math_sqrt NaN = NaN"

text \<open>The comparisons \<open><\<close> and \<open><=\<close>: false as soon as one side is NaN.\<close>

fun js_lt :: "number \<Rightarrow> number \<Rightarrow> bool" where
  "js_lt (Fin a) (Fin b) = (a < b)"
| "js_lt (Fin a) PosInf = True"
| "js_lt (Fin a) NegInf = False"
| "js_lt PosInf _ = False"
| "js_lt NegInf (Fin b) = True"
| "js_lt NegInf PosInf = True"
| "js_lt NegInf NegInf = False"
| "js_lt NaN _ = False"
| "js_lt _ NaN = False"

fun js_le :: "number \<Rightarrow> number \<Rightarrow> bool" where
  "js_le (Fin a) (Fin b) = (a \<le> b)"
| "js_le (Fin a) PosInf = True"
| "js_le (Fin a) NegInf = False"
| "js_le PosInf PosInf = True"
| "js_le PosInf (Fin b) = False"
| "js_le PosInf NegInf = False"
| "js_le NegInf (Fin b) = True"
| "js_le NegInf PosInf = True"
| "js_le NegInf NegInf = True"
| "js_le NaN _ = False"
| "js_le _ NaN = False"

definition js_gt :: "number \<Rightarrow> number \<Rightarrow> bool" where
  "js_gt a b = js_lt b a"

text \<open>\<open>Math.min\<close> of two arguments: NaN as soon as one of them is NaN.\<close>

fun Math_min :: "number \<Rightarrow> number \<Rightarrow> number" where
  "Math_min NaN _ = NaN"
| "Math_min _ NaN = NaN"
| "Math_min a b = (if js_lt b a then b else a)"



section \<open>Vector3\<close>

text \<open>
  A \<open>Vector3\<close> object has the three fields \<open>x\<close>, \<open>y\<close>, \<open>z\<close>. Objects live in a
  store and are handled by reference: the mutating methods overwrite the fields of the
  receiver and return the receiver, \<open>clone\<close> and \<open>fromTo\<close> allocate a new object.
  For each method, a function with suffix \<open>_v\<close> gives the field values it computes and
  the function named after the method applies it to the store.
\<close>

record vector3 =
  x :: number
  y :: number
  z :: number

type_synonym ref = nat
type_synonym store = "vector3 list"

definition alloc :: "store \<Rightarrow> vector3 \<Rightarrow> store \<times> ref" where
  "alloc h v = (h @ [v], length h)"


definition negate_v :: "vector3 \<Rightarrow> vector3" where
  "negate_v v = \<lparr>x = js_mul (x v) (Fin (- 1)), y = js_mul (y v) (Fin (- 1)),
     z = js_mul (z v) (Fin (- 1))\<rparr>"

definition add_v :: "vector3 \<Rightarrow> vector3 \<Rightarrow> vector3" where
  "add_v this v = \<lparr>x = js_add (x this) (x v), y = js_add (y this) (y v),
     z = js_add (z this) (z v)\<rparr>"

definition multiplyScalar_v :: "vector3 \<Rightarrow> number \<Rightarrow> vector3" where
  "multiplyScalar_v this scalar = \<lparr>x = js_mul (x this) scalar, y = js_mul (y this) scalar,
     z = js_mul (z this) scalar\<rparr>"

text \<open>\<open>length\<close>, \<open>lengthSqr\<close> and \<open>dot\<close> accumulate into a variable that starts at 0.\<close>

definition lengthSqr_v :: "vector3 \<Rightarrow> number" where
  "lengthSqr_v this =
     js_add (js_add (js_add (Fin 0) (js_mul (x this) (x this))) (js_mul (y this) (y this)))
       (js_mul (z this) (z this))"

definition length_v :: "vector3 \<Rightarrow> number" where
  "length_v this =
     Math_sqrt (js_add (js_add (js_add (Fin 0) (js_mul (x this) (x this)))
       (js_mul (y this) (y this))) (js_mul (z this) (z this)))"

definition dot_v :: "vector3 \<Rightarrow> vector3 \<Rightarrow> number" where
  "dot_v this other =
     js_add (js_add (js_add (Fin 0) (js_mul (x this) (x other))) (js_mul (y this) (y other)))
       (js_mul (z this) (z other))"

definition normalize_v :: "vector3 \<Rightarrow> vector3" where
  "normalize_v this =
     (let lengthSqr = lengthSqr_v this;
          ogXSquared = js_mul (x this) (x this);
          ogYSquared = js_mul (y this) (y this);
          ogZSquared = js_mul (z this) (z this)
      in if js_gt (length_v this) (Fin 0)
         then \<lparr>x = Math_sqrt (js_div ogXSquared lengthSqr),
               y = Math_sqrt (js_div ogYSquared lengthSqr),
               z = Math_sqrt (js_div ogZSquared lengthSqr)\<rparr>
         else this)"

definition fromTo_v :: "vector3 \<Rightarrow> vector3 \<Rightarrow> vector3" where
  "fromTo_v fromPoint toPoint =
     \<lparr>x = js_sub (x toPoint) (x fromPoint), y = js_sub (y toPoint) (y fromPoint),
      z = js_sub (z toPoint) (z fromPoint)\<rparr>"

definition Vector3_clone :: "store \<Rightarrow> ref \<Rightarrow> store \<times> ref" where
  "Vector3_clone h this = alloc h \<lparr>x = x (h ! this), y = y (h ! this), z = z (h ! this)\<rparr>"

definition Vector3_negate :: "store \<Rightarrow> ref \<Rightarrow> store \<times> ref" where
  "Vector3_negate h this = (h[this := negate_v (h ! this)], this)"

definition Vector3_add :: "store \<Rightarrow> ref \<Rightarrow> ref \<Rightarrow> store \<times> ref" where
  "Vector3_add h this v = (h[this := add_v (h ! this) (h ! v)], this)"

definition Vector3_multiplyScalar :: "store \<Rightarrow> ref \<Rightarrow> number \<Rightarrow> store \<times> ref" where
  "Vector3_multiplyScalar h this scalar = (h[this := multiplyScalar_v (h ! this) scalar], this)"

definition Vector3_length :: "store \<Rightarrow> ref \<Rightarrow> number" where
  "Vector3_length h this = length_v (h ! this)"

definition Vector3_lengthSqr :: "store \<Rightarrow> ref \<Rightarrow> number" where
  "Vector3_lengthSqr h this = lengthSqr_v (h ! this)"

definition Vector3_dot :: "store \<Rightarrow> ref \<Rightarrow> ref \<Rightarrow> number" where
  "Vector3_dot h this other = dot_v (h ! this) (h ! other)"

definition Vector3_normalize :: "store \<Rightarrow> ref \<Rightarrow> store \<times> ref" where
  "Vector3_normalize h this = (h[this := normalize_v (h ! this)], this)"

definition Vector3_fromTo :: "store \<Rightarrow> ref \<Rightarrow> ref \<Rightarrow> store \<times> ref" where
  "Vector3_fromTo h fromPoint toPoint = alloc h (fromTo_v (h ! fromPoint) (h ! toPoint))"


section \<open>Sphere\<close>

subsection \<open>The constructor\<close>

text \<open>
  The constructor receives arbitrary JavaScript values. The model has the values its
  checks tell apart: a field of a \<open>Vector3\<close> object is \<open>undefined\<close> (missing),
  \<open>null\<close> or a number; an argument is a primitive value, a function, or an instance of
  \<open>Vector3\<close>. Fields of other types (strings, booleans, objects) are outside the
  model. \<open>console.warn\<close> only logs and is left out.
\<close>

datatype field = Undefined | Null | Number number

datatype jsval = JUndefined | JNull | JBoolean bool | JNumber number | JString string
  | JFunction | JVector3 field field field






subsection \<open>raycast\<close>

text \<open>
  \<open>raycast\<close> works on a sphere and a ray whose vectors are objects in the store and
  whose radius is a number, as the constructor leaves them. The sphere and the ray hold
  references; \<open>raycast\<close> contains no assignment to a field of either.
\<close>

record sphere =
  center :: ref
  radius :: number

record ray =
  origin :: ref
  direction :: ref

record result =
  hit :: bool
  point :: "ref option"
  normal :: "ref option"
  distance :: "number option"

definition result0 :: result where
  "result0 = \<lparr>hit = False, point = None, normal = None, distance = None\<rparr>"

definition discriminant_of :: "number \<Rightarrow> number \<Rightarrow> number \<Rightarrow> number" where
  "discriminant_of a b c = js_sub (js_mul b b) (js_mul (js_mul (Fin 4) a) c)"

definition root1 :: "number \<Rightarrow> number \<Rightarrow> number \<Rightarrow> number" where
  "root1 a b discriminant =
     js_div (js_sub (js_neg b) (Math_sqrt discriminant)) (js_mul (Fin 2) a)"

definition root2 :: "number \<Rightarrow> number \<Rightarrow> number \<Rightarrow> number" where
  "root2 a b discriminant =
     js_div (js_add (js_neg b) (Math_sqrt discriminant)) (js_mul (Fin 2) a)"

text \<open>The choice of \<open>t\<close> among the two roots; \<open>None\<close> is \<open>null\<close>.\<close>

definition select_t :: "number \<Rightarrow> number \<Rightarrow> number option" where
  "select_t t1 t2 =
     (if js_gt t1 (Fin 0) \<and> js_gt t2 (Fin 0) then Some (Math_min t1 t2)
      else if js_gt t1 (Fin 0) then Some t1
      else if js_gt t2 (Fin 0) then Some t2
      else None)"

text \<open>
  In \<open>normal.length <= 0\<close> the left operand is the method \<open>length\<close> itself, not a call
  of it: a function object. The comparison converts it to a number through its source
  text, which is no numeric literal, so the operand is NaN.
\<close>

definition function_to_number :: number where
  "function_to_number = NaN"

text \<open>
  The body of \<open>raycast\<close>, with the store threaded through the calls in the order in
  which JavaScript evaluates them: in
  \<open>ray.origin.clone().add(ray.direction.clone().multiplyScalar(t))\<close> the receiver
  \<open>ray.origin.clone()\<close> is evaluated before the argument. Every early
  \<open>return result\<close> returns the record as it was initialised.
\<close>

definition raycast :: "store \<Rightarrow> sphere \<Rightarrow> ray \<Rightarrow> store \<times> result" where
  "raycast h this ray =
     (let (h1, originToCenter) = Vector3_fromTo h (origin ray) (center this);
          (h2, cloned) = Vector3_clone h1 originToCenter;
          (h3, centerToOrigin) = Vector3_negate h2 cloned;
          a = Vector3_dot h3 (direction ray) (direction ray);
          b = js_mul (Fin 2) (Vector3_dot h3 centerToOrigin (direction ray));
          c = js_sub (Vector3_dot h3 centerToOrigin centerToOrigin)
                (js_mul (radius this) (radius this));
          discriminant = discriminant_of a b c
      in if js_lt discriminant (Fin 0) then (h3, result0)
         else
           (case select_t (root1 a b discriminant) (root2 a b discriminant) of
              None \<Rightarrow> (h3, result0)
            | Some t \<Rightarrow>
               (let (h4, originClone) = Vector3_clone h3 (origin ray);
                    (h5, directionClone) = Vector3_clone h4 (direction ray);
                    (h6, scaled) = Vector3_multiplyScalar h5 directionClone t;
                    (h7, intersectionPoint) = Vector3_add h6 originClone scaled;
                    (h8, fromCenter) = Vector3_fromTo h7 (center this) intersectionPoint;
                    (h9, normal) = Vector3_normalize h8 fromCenter;
                    distance = t
                in if js_lt distance (Fin 0) then (h9, result0)
                   else if js_lt (Vector3_length h9 originToCenter) (radius this)
                     then (h9, result0)
                   else if js_le function_to_number (Fin 0) then (h9, result0)
                   else (h9, \<lparr>hit = True, point = Some intersectionPoint,
                              normal = Some normal, distance = Some t\<rparr>))))"

text \<open>
  The parameter \<open>t\<close> that lines 97 to 121 of \<open>raycast\<close> compute, as a function of the
  values of the ray's origin and direction, of the sphere's center and of its radius.
\<close>

definition ray_parameter :: "vector3 \<Rightarrow> vector3 \<Rightarrow> vector3 \<Rightarrow> number \<Rightarrow> number option" where
  "ray_parameter po pd pc r =
     (let centerToOrigin = negate_v (fromTo_v po pc);
          a = dot_v pd pd;
          b = js_mul (Fin 2) (dot_v centerToOrigin pd);
          c = js_sub (dot_v centerToOrigin centerToOrigin) (js_mul r r);
          discriminant = discriminant_of a b c
      in if js_lt discriminant (Fin 0) then None
         else select_t (root1 a b discriminant) (root2 a b discriminant))"

text \<open>The references of a call are those of objects in the store.\<close>

definition valid_refs :: "store \<Rightarrow> sphere \<Rightarrow> ray \<Rightarrow> bool" where
  "valid_refs h this ray =
     (center this < length h \<and> origin ray < length h \<and> direction ray < length h)"


subsection \<open>The intersection rule in the specification's words\<close>

text \<open>
  The specification states the rule over real numbers: with \<open>oc = C - O\<close>,
  \<open>a = D\<cdot>D\<close>, \<open>b = -2(oc\<cdot>D)\<close>, \<open>c = oc\<cdot>oc - r\<^sup>2\<close>, the discriminant is
  \<open>b\<^sup>2 - 4ac\<close>, the roots are \<open>(-b \<mp> \<surd>\<Delta>)/(2a)\<close>, and the smallest strictly
  positive root is selected. These definitions follow that text; the theorems below
  compare them with \<open>raycast\<close>.
\<close>

type_synonym rvec = "real \<times> real \<times> real"

fun vec_of :: "rvec \<Rightarrow> vector3" where
  "vec_of (a, b, c) = \<lparr>x = Fin a, y = Fin b, z = Fin c\<rparr>"











section \<open>Auxiliary facts\<close>

lemmas value_defs = fromTo_v_def negate_v_def dot_v_def add_v_def multiplyScalar_v_def
  normalize_v_def lengthSqr_v_def length_v_def

lemmas parameter_defs = ray_parameter_def Let_def discriminant_of_def root1_def root2_def
  select_t_def

lemma js_sub_Fin [simp]: "js_sub (Fin a) (Fin b) = Fin (a - b)"
  by (simp add: js_sub_def)

lemma js_gt_Fin [simp]: "js_gt (Fin a) (Fin b) = (b < a)"
  by (simp add: js_gt_def)

lemma Math_min_Fin [simp]: "Math_min (Fin a) (Fin b) = Fin (min a b)"
  by (simp add: min_def)

lemma Math_min_pos:
  "js_gt t1 (Fin 0) \<Longrightarrow> js_gt t2 (Fin 0) \<Longrightarrow> js_gt (Math_min t1 t2) (Fin 0)"
  by (cases t1; cases t2) (auto simp: js_gt_def)

lemma select_t_pos: "select_t t1 t2 = Some t \<Longrightarrow> js_gt t (Fin 0)"
  by (auto simp: select_t_def Math_min_pos split: if_splits)


lemma ray_parameter_pos: "ray_parameter po pd pc r = Some t \<Longrightarrow> js_gt t (Fin 0)"
  by (auto simp: ray_parameter_def Let_def select_t_pos split: if_splits)

lemma js_gt_not_lt: "js_gt t (Fin 0) \<Longrightarrow> \<not> js_lt t (Fin 0)"
  by (cases t) (auto simp: js_gt_def)

lemma clone_eq: "Vector3_clone h r = (h @ [h ! r], length h)"
  by (simp add: Vector3_clone_def alloc_def)

lemma valid_refsD:
  "valid_refs h s r \<Longrightarrow> center s < length h \<and> origin r < length h \<and> direction r < length h"
  by (simp add: valid_refs_def)

text \<open>
  The store and the result of a call, in terms of the values the call starts from: two
  objects are allocated before the discriminant is tested, three more once a \<open>t\<close> is
  selected, and only these new objects are written.
\<close>

lemma raycast_unfold:
  assumes "valid_refs h this ray"
  shows "raycast h this ray =
     (let po = h ! origin ray; pd = h ! direction ray; pc = h ! center this;
          oc = fromTo_v po pc
      in case ray_parameter po pd pc (radius this) of
           None \<Rightarrow> (h @ [oc, negate_v oc], result0)
         | Some t \<Rightarrow>
             (h @ [oc, negate_v oc, add_v po (multiplyScalar_v pd t), multiplyScalar_v pd t,
                   normalize_v (fromTo_v pc (add_v po (multiplyScalar_v pd t)))],
              if js_lt t (Fin 0) \<or> js_lt (length_v oc) (radius this) then result0
              else \<lparr>hit = True, point = Some (length h + 2), normal = Some (length h + 4),
                     distance = Some t\<rparr>))"
  using valid_refsD[OF assms]
  by (simp add: raycast_def ray_parameter_def Let_def clone_eq Vector3_fromTo_def alloc_def
      Vector3_negate_def Vector3_dot_def Vector3_multiplyScalar_def Vector3_add_def
      Vector3_normalize_def Vector3_length_def function_to_number_def nth_append
      list_update_append split: option.split)

lemma raycast_snd:
  assumes "valid_refs h this ray"
  shows "snd (raycast h this ray) =
     (case ray_parameter (h ! origin ray) (h ! direction ray) (h ! center this) (radius this) of
        None \<Rightarrow> result0
      | Some t \<Rightarrow>
          if js_lt (length_v (fromTo_v (h ! origin ray) (h ! center this))) (radius this)
          then result0
          else \<lparr>hit = True, point = Some (length h + 2), normal = Some (length h + 4),
                 distance = Some t\<rparr>)"
  using ray_parameter_pos[THEN js_gt_not_lt]
  by (auto simp add: raycast_unfold[OF assms] Let_def split: option.split)
















section \<open>Vector3.normalize\<close>

text \<open>
  Claim C1: for every \<open>Vector3\<close> of length greater than 0, \<open>normalize\<close> preserves the
  sign of each component, each component of the result being the original one divided by
  the length. The code takes the square root of the squared component over the squared
  length, which is never negative: on \<open>(-2, 0, 0)\<close>, of length 2, it stores \<open>(1, 0, 0)\<close>,
  where the component divided by the length is \<open>-1\<close>.
\<close>

theorem normalize_drops_sign:
  "js_gt (Vector3_length [\<lparr>x = Fin (- 2), y = Fin 0, z = Fin 0\<rparr>] 0) (Fin 0) \<and>
   Vector3_normalize [\<lparr>x = Fin (- 2), y = Fin 0, z = Fin 0\<rparr>] 0 =
     ([\<lparr>x = Fin 1, y = Fin 0, z = Fin 0\<rparr>], 0) \<and>
   js_div (Fin (- 2)) (Vector3_length [\<lparr>x = Fin (- 2), y = Fin 0, z = Fin 0\<rparr>] 0) = Fin (- 1)"
  by (simp add: Vector3_normalize_def Vector3_length_def value_defs Let_def)





section \<open>The Sphere constructor\<close>





section \<open>Sphere.raycast\<close>

text \<open>
  Claim C2: for the sphere with center \<open>(0, 0, 0)\<close> and radius 1 and the ray with
  origin \<open>(0, 0, -5)\<close> and direction \<open>(0, 0, 1)\<close>, \<open>raycast\<close> returns a hit with point
  \<open>(0, 0, -1)\<close>, normal \<open>(0, 0, -1)\<close> and distance 4. The code returns the hit, the
  point (object 5 of the store) and the distance, but the normal (object 7) is
  \<open>(0, 0, 1)\<close>: \<open>normalize\<close> has dropped the sign of its third component.
\<close>

theorem raycast_front_of_unit_sphere:
  "raycast [\<lparr>x = Fin 0, y = Fin 0, z = Fin (- 5)\<rparr>, \<lparr>x = Fin 0, y = Fin 0, z = Fin 1\<rparr>,
      \<lparr>x = Fin 0, y = Fin 0, z = Fin 0\<rparr>]
     \<lparr>center = 2, radius = Fin 1\<rparr> \<lparr>origin = 0, direction = 1\<rparr> =
   ([\<lparr>x = Fin 0, y = Fin 0, z = Fin (- 5)\<rparr>, \<lparr>x = Fin 0, y = Fin 0, z = Fin 1\<rparr>,
     \<lparr>x = Fin 0, y = Fin 0, z = Fin 0\<rparr>,
     \<lparr>x = Fin 0, y = Fin 0, z = Fin 5\<rparr>, \<lparr>x = Fin 0, y = Fin 0, z = Fin (- 5)\<rparr>,
     \<lparr>x = Fin 0, y = Fin 0, z = Fin (- 1)\<rparr>, \<lparr>x = Fin 0, y = Fin 0, z = Fin 4\<rparr>,
     \<lparr>x = Fin 0, y = Fin 0, z = Fin 1\<rparr>],
    \<lparr>hit = True, point = Some 5, normal = Some 7, distance = Some (Fin 4)\<rparr>)"
  by (subst raycast_unfold) (simp_all add: valid_refs_def parameter_defs value_defs)



text \<open>
  Claim C5: for every sphere and ray, if the distance from the ray's origin to the
  sphere's center is strictly less than the radius, \<open>raycast\<close> returns no hit, even when
  a strictly positive root exists; in particular for the unit sphere at the origin and
  the ray from \<open>(0, 0, 0)\<close> along \<open>(0, 0, 1)\<close>, where the root 1 is selected.
\<close>

theorem raycast_origin_inside:
  assumes "valid_refs h this ray"
    and "js_lt (length_v (fromTo_v (h ! origin ray) (h ! center this))) (radius this)"
  shows "snd (raycast h this ray) = result0"
  using assms(2) by (simp add: raycast_snd[OF assms(1)] split: option.split)

theorem raycast_origin_inside_witness:
  "valid_refs [\<lparr>x = Fin 0, y = Fin 0, z = Fin 0\<rparr>, \<lparr>x = Fin 0, y = Fin 0, z = Fin 1\<rparr>,
      \<lparr>x = Fin 0, y = Fin 0, z = Fin 0\<rparr>]
     \<lparr>center = 2, radius = Fin 1\<rparr> \<lparr>origin = 0, direction = 1\<rparr> \<and>
   js_lt (length_v (fromTo_v \<lparr>x = Fin 0, y = Fin 0, z = Fin 0\<rparr>
     \<lparr>x = Fin 0, y = Fin 0, z = Fin 0\<rparr>)) (Fin 1) \<and>
   ray_parameter \<lparr>x = Fin 0, y = Fin 0, z = Fin 0\<rparr> \<lparr>x = Fin 0, y = Fin 0, z = Fin 1\<rparr>
     \<lparr>x = Fin 0, y = Fin 0, z = Fin 0\<rparr> (Fin 1) = Some (Fin 1) \<and>
   snd (raycast [\<lparr>x = Fin 0, y = Fin 0, z = Fin 0\<rparr>, \<lparr>x = Fin 0, y = Fin 0, z = Fin 1\<rparr>,
      \<lparr>x = Fin 0, y = Fin 0, z = Fin 0\<rparr>]
     \<lparr>center = 2, radius = Fin 1\<rparr> \<lparr>origin = 0, direction = 1\<rparr>) =
     \<lparr>hit = False, point = None, normal = None, distance = None\<rparr>"
  using raycast_origin_inside [of "[\<lparr>x = Fin 0, y = Fin 0, z = Fin 0\<rparr>,
      \<lparr>x = Fin 0, y = Fin 0, z = Fin 1\<rparr>, \<lparr>x = Fin 0, y = Fin 0, z = Fin 0\<rparr>]"
     "\<lparr>center = 2, radius = Fin 1\<rparr>" "\<lparr>origin = 0, direction = 1\<rparr>"]
  by (simp add: valid_refs_def parameter_defs value_defs result0_def)


text \<open>
  Claim C7, as stated: for the sphere of radius 1 at the origin and the ray with origin
  \<open>(0, 2, -5)\<close> and direction \<open>(0, 0, 1)\<close>, the discriminant is about 0 and \<open>raycast\<close>
  returns a hit at a single grazing point. This ray passes the center at distance 2:
  with \<open>a = 1\<close>, \<open>b = -10\<close>, \<open>c = 28\<close> the discriminant is \<open>-12\<close> and there is no hit.
\<close>

theorem raycast_offset_two_misses:
  "discriminant_of (Fin 1) (Fin (- 10)) (Fin 28) = Fin (- 12) \<and>
   \<not> hit (snd (raycast [vec_of (0, 2, - 5), vec_of (0, 0, 1), vec_of (0, 0, 0)]
     \<lparr>center = 2, radius = Fin 1\<rparr> \<lparr>origin = 0, direction = 1\<rparr>))"
  by (subst raycast_unfold) (simp_all add: valid_refs_def parameter_defs value_defs result0_def)

text \<open>
  Claim C7, amended: for the sphere of radius 1 at the origin, the ray with origin
  \<open>(0, 2, -5)\<close> and direction \<open>(0, 0, 1)\<close> has a negative discriminant and \<open>raycast\<close>
  returns no hit; the grazing ray is the one with origin \<open>(0, 1, -5)\<close>: its
  discriminant is 0, both roots are 5, and \<open>raycast\<close> returns a hit at distance 5 with
  point \<open>(0, 1, 0)\<close> and normal \<open>(0, 1, 0)\<close>, which points from the center to the point.
\<close>

theorem raycast_tangent_offset_one:
  "raycast [vec_of (0, 2, - 5), vec_of (0, 0, 1), vec_of (0, 0, 0)]
     \<lparr>center = 2, radius = Fin 1\<rparr> \<lparr>origin = 0, direction = 1\<rparr> =
     ([vec_of (0, 2, - 5), vec_of (0, 0, 1), vec_of (0, 0, 0), vec_of (0, - 2, 5),
       vec_of (0, 2, - 5)], \<lparr>hit = False, point = None, normal = None, distance = None\<rparr>) \<and>
   discriminant_of (Fin 1) (Fin (- 10)) (Fin 25) = Fin 0 \<and>
   root1 (Fin 1) (Fin (- 10)) (Fin 0) = Fin 5 \<and>
   root2 (Fin 1) (Fin (- 10)) (Fin 0) = Fin 5 \<and>
   raycast [vec_of (0, 1, - 5), vec_of (0, 0, 1), vec_of (0, 0, 0)]
     \<lparr>center = 2, radius = Fin 1\<rparr> \<lparr>origin = 0, direction = 1\<rparr> =
     ([vec_of (0, 1, - 5), vec_of (0, 0, 1), vec_of (0, 0, 0), vec_of (0, - 1, 5),
       vec_of (0, 1, - 5), vec_of (0, 1, 0), vec_of (0, 0, 5), vec_of (0, 1, 0)],
      \<lparr>hit = True, point = Some 5, normal = Some 7, distance = Some (Fin 5)\<rparr>)"
  apply (subst raycast_unfold)
   apply (simp add: valid_refs_def)
  apply (subst raycast_unfold)
   apply (simp add: valid_refs_def)
  apply (simp add: parameter_defs value_defs result0_def)
  done

text \<open>
  Claim C8: for every sphere and ray, a call of \<open>raycast\<close> leaves the ray's origin and
  direction and the sphere's center unchanged: every object that was in the store before
  the call has its value after it, so the call writes only to objects it has allocated.
  The radius is a number held in a field that \<open>raycast\<close> never assigns. The witness is a
  ray whose origin and direction are the same object.
\<close>

theorem raycast_frame:
  assumes "valid_refs h this ray"
  shows "take (length h) (fst (raycast h this ray)) = h \<and>
     fst (raycast h this ray) ! origin ray = h ! origin ray \<and>
     fst (raycast h this ray) ! direction ray = h ! direction ray \<and>
     fst (raycast h this ray) ! center this = h ! center this"
  using valid_refsD[OF assms]
  by (simp add: raycast_unfold[OF assms] Let_def nth_append split: option.split)

theorem raycast_frame_witness:
  "valid_refs [\<lparr>x = Fin 0, y = Fin 0, z = Fin 1\<rparr>, \<lparr>x = Fin 0, y = Fin 0, z = Fin 5\<rparr>]
     \<lparr>center = 1, radius = Fin 1\<rparr> \<lparr>origin = 0, direction = 0\<rparr> \<and>
   take (length [\<lparr>x = Fin 0, y = Fin 0, z = Fin 1\<rparr>, \<lparr>x = Fin 0, y = Fin 0, z = Fin 5\<rparr>])
     (fst (raycast [\<lparr>x = Fin 0, y = Fin 0, z = Fin 1\<rparr>, \<lparr>x = Fin 0, y = Fin 0, z = Fin 5\<rparr>]
        \<lparr>center = 1, radius = Fin 1\<rparr> \<lparr>origin = 0, direction = 0\<rparr>)) =
     [\<lparr>x = Fin 0, y = Fin 0, z = Fin 1\<rparr>, \<lparr>x = Fin 0, y = Fin 0, z = Fin 5\<rparr>]"
  using raycast_frame [of "[\<lparr>x = Fin 0, y = Fin 0, z = Fin 1\<rparr>, \<lparr>x = Fin 0, y = Fin 0, z = Fin 5\<rparr>]"
     "\<lparr>center = 1, radius = Fin 1\<rparr>" "\<lparr>origin = 0, direction = 0\<rparr>"]
  by (simp add: valid_refs_def)

text \<open>
  Claim C9: the branch of \<open>raycast\<close> that rejects a degenerate normal is unreachable.
  Its guard compares the method \<open>normal.length\<close> itself with 0, which is never true, so
  \<open>raycast\<close> never returns no hit on account of a normal of length 0: once a \<open>t\<close> is
  selected and the origin is not inside the sphere, the result is a hit, whatever the
  normal. The witness is a sphere of radius 0, where the normal is the zero vector.
\<close>

theorem normal_guard_never_fires:
  assumes "valid_refs h this ray"
    and "ray_parameter (h ! origin ray) (h ! direction ray) (h ! center this) (radius this)
           = Some t"
    and "\<not> js_lt (length_v (fromTo_v (h ! origin ray) (h ! center this))) (radius this)"
  shows "\<not> js_le function_to_number (Fin 0) \<and>
     snd (raycast h this ray) =
       \<lparr>hit = True, point = Some (length h + 2), normal = Some (length h + 4),
         distance = Some t\<rparr>"
  using assms(2,3) by (simp add: raycast_snd[OF assms(1)] function_to_number_def)

theorem normal_guard_never_fires_witness:
  "valid_refs [vec_of (0, 0, - 5), vec_of (0, 0, 1), vec_of (0, 0, - 1)]
     \<lparr>center = 2, radius = Fin 0\<rparr> \<lparr>origin = 0, direction = 1\<rparr> \<and>
   ray_parameter (vec_of (0, 0, - 5)) (vec_of (0, 0, 1)) (vec_of (0, 0, - 1)) (Fin 0)
     = Some (Fin 4) \<and>
   \<not> js_lt (length_v (fromTo_v (vec_of (0, 0, - 5)) (vec_of (0, 0, - 1)))) (Fin 0) \<and>
   length_v (fst (raycast [vec_of (0, 0, - 5), vec_of (0, 0, 1), vec_of (0, 0, - 1)]
     \<lparr>center = 2, radius = Fin 0\<rparr> \<lparr>origin = 0, direction = 1\<rparr>) ! 7) = Fin 0 \<and>
   snd (raycast [vec_of (0, 0, - 5), vec_of (0, 0, 1), vec_of (0, 0, - 1)]
     \<lparr>center = 2, radius = Fin 0\<rparr> \<lparr>origin = 0, direction = 1\<rparr>) =
     \<lparr>hit = True, point = Some 5, normal = Some 7, distance = Some (Fin 4)\<rparr>"
  using normal_guard_never_fires [of "[vec_of (0, 0, - 5), vec_of (0, 0, 1), vec_of (0, 0, - 1)]"
     "\<lparr>center = 2, radius = Fin 0\<rparr>" "\<lparr>origin = 0, direction = 1\<rparr>" "Fin 4"]
  by (simp add: raycast_unfold valid_refs_def parameter_defs value_defs)

text \<open>
  Claim C10: every result of \<open>raycast\<close> is well formed. If \<open>hit\<close> is false then
  \<open>point\<close>, \<open>normal\<close> and \<open>distance\<close> are \<open>null\<close>. If \<open>hit\<close> is true then \<open>point\<close> and
  \<open>normal\<close> are \<open>Vector3\<close> objects of the store, and \<open>distance\<close> is a strictly positive
  number, the selected ray parameter \<open>t\<close>: the point is the origin plus \<open>t\<close> times the
  direction.
\<close>

theorem raycast_result_well_formed:
  assumes "valid_refs h this ray"
  shows "case raycast h this ray of (h', res) \<Rightarrow>
     (\<not> hit res \<longrightarrow> point res = None \<and> normal res = None \<and> distance res = None) \<and>
     (hit res \<longrightarrow>
        (\<exists>p n t. point res = Some p \<and> p < length h' \<and> normal res = Some n \<and> n < length h' \<and>
           distance res = Some t \<and> js_gt t (Fin 0) \<and>
           ray_parameter (h ! origin ray) (h ! direction ray) (h ! center this) (radius this)
             = Some t \<and>
           h' ! p = add_v (h ! origin ray) (multiplyScalar_v (h ! direction ray) t)))"
  using ray_parameter_pos
  by (auto simp add: raycast_unfold[OF assms] Let_def result0_def nth_append
      split: option.split)

theorem raycast_result_well_formed_witness:
  "valid_refs [vec_of (0, 0, 0), vec_of (1, 0, 0), vec_of (5, 0, 0)]
     \<lparr>center = 2, radius = Fin 1\<rparr> \<lparr>origin = 0, direction = 1\<rparr> \<and>
   (case raycast [vec_of (0, 0, 0), vec_of (1, 0, 0), vec_of (5, 0, 0)]
       \<lparr>center = 2, radius = Fin 1\<rparr> \<lparr>origin = 0, direction = 1\<rparr> of
      (h', res) \<Rightarrow> hit res \<and> point res = Some 5 \<and> normal res = Some 7 \<and> length h' = 8 \<and>
        distance res = Some (Fin 4) \<and> h' ! 5 = vec_of (4, 0, 0)) \<and>
   valid_refs [vec_of (0, 0, - 5), vec_of (0, 1, 0), vec_of (0, 0, 0)]
     \<lparr>center = 2, radius = Fin 1\<rparr> \<lparr>origin = 0, direction = 1\<rparr> \<and>
   (case raycast [vec_of (0, 0, - 5), vec_of (0, 1, 0), vec_of (0, 0, 0)]
       \<lparr>center = 2, radius = Fin 1\<rparr> \<lparr>origin = 0, direction = 1\<rparr> of
      (h', res) \<Rightarrow> \<not> hit res \<and> point res = None \<and> normal res = None \<and> distance res = None)"
  using raycast_result_well_formed [of "[vec_of (0, 0, 0), vec_of (1, 0, 0), vec_of (5, 0, 0)]"
     "\<lparr>center = 2, radius = Fin 1\<rparr>" "\<lparr>origin = 0, direction = 1\<rparr>"]
    raycast_result_well_formed [of "[vec_of (0, 0, - 5), vec_of (0, 1, 0), vec_of (0, 0, 0)]"
     "\<lparr>center = 2, radius = Fin 1\<rparr>" "\<lparr>origin = 0, direction = 1\<rparr>"]
  by (simp add: raycast_unfold valid_refs_def parameter_defs value_defs result0_def)

end
